theory Spec2Isabelle
  imports Complex_Main
begin

section \<open>Numeric types of the program\<close>

text \<open>
  A \<^verbatim>\<open>time.Duration\<close> is an \<^verbatim>\<open>int64\<close> count of nanoseconds. It is modelled by an \<^typ>\<open>int\<close>
  with the 64-bit behaviour written out where the program computes with durations: sums
  and quotients wrap around (\<open>wrap64\<close>), and the difference of two instants saturates
  (\<open>sat64\<close>), as \<^verbatim>\<open>time.Time.Sub\<close> does. An instant (\<^verbatim>\<open>time.Time\<close>) is the number of
  nanoseconds since the zero instant; the clock readings are passed in by the caller.
  The counters of type \<^verbatim>\<open>int\<close> count calls of \<^verbatim>\<open>Update\<close> and jobs of a slice, and are
  modelled by \<^typ>\<open>int\<close>.

  \<^verbatim>\<open>float64\<close> keeps the special values that a division by zero produces; a finite value is
  an exact real (rounding error and overflow to infinity are not modelled, and zero is
  the positive zero that the conversions of non-negative integers produce).
\<close>

type_synonym Duration = int
type_synonym Time = int

definition in_int64 :: "int \<Rightarrow> bool" where
  "in_int64 x = (- 9223372036854775808 \<le> x \<and> x \<le> 9223372036854775807)"

text \<open>Two's-complement wrap-around of a 64-bit signed result.\<close>

definition wrap64 :: "int \<Rightarrow> int" where
  "wrap64 x = (x + 9223372036854775808) mod 18446744073709551616 - 9223372036854775808"

text \<open>
  \<^verbatim>\<open>t.Sub(u)\<close>: the difference of two instants, or the largest (smallest) duration when
  the difference is above (below) the range of \<^verbatim>\<open>time.Duration\<close>.
\<close>

definition sat64 :: "int \<Rightarrow> int" where
  "sat64 x = (if x > 9223372036854775807 then 9223372036854775807
              else if x < - 9223372036854775808 then - 9223372036854775808 else x)"

definition time_Sub :: "Time \<Rightarrow> Time \<Rightarrow> Duration" where
  "time_Sub t u = sat64 (t - u)"

datatype float64 = Fin real | PInf | NInf | NaN

fun f64_neg :: "float64 \<Rightarrow> float64" where
  "f64_neg (Fin a) = Fin (- a)"
| "f64_neg PInf = NInf"
| "f64_neg NInf = PInf"
| "f64_neg NaN = NaN"

fun f64_add :: "float64 \<Rightarrow> float64 \<Rightarrow> float64" where
  "f64_add (Fin a) (Fin b) = Fin (a + b)"
| "f64_add NaN _ = NaN"
| "f64_add _ NaN = NaN"
| "f64_add PInf NInf = NaN"
| "f64_add NInf PInf = NaN"
| "f64_add PInf _ = PInf"
| "f64_add _ PInf = PInf"
| "f64_add NInf _ = NInf"
| "f64_add _ NInf = NInf"

definition f64_sub :: "float64 \<Rightarrow> float64 \<Rightarrow> float64" where
  "f64_sub a b = f64_add a (f64_neg b)"

text \<open>The sign rule shared by products and quotients with an infinite operand.\<close>

definition f64_signed_inf :: "bool \<Rightarrow> float64" where
  "f64_signed_inf positive = (if positive then PInf else NInf)"

fun f64_mul :: "float64 \<Rightarrow> float64 \<Rightarrow> float64" where
  "f64_mul (Fin a) (Fin b) = Fin (a * b)"
| "f64_mul NaN _ = NaN"
| "f64_mul _ NaN = NaN"
| "f64_mul PInf (Fin b) = (if b = 0 then NaN else f64_signed_inf (0 < b))"
| "f64_mul NInf (Fin b) = (if b = 0 then NaN else f64_signed_inf (b < 0))"
| "f64_mul (Fin a) PInf = (if a = 0 then NaN else f64_signed_inf (0 < a))"
| "f64_mul (Fin a) NInf = (if a = 0 then NaN else f64_signed_inf (a < 0))"
| "f64_mul PInf PInf = PInf"
| "f64_mul NInf NInf = PInf"
| "f64_mul PInf NInf = NInf"
| "f64_mul NInf PInf = NInf"

text \<open>
  IEEE-754 division as Go performs it: no panic; a finite non-zero value divided by zero
  is an infinity, zero divided by zero is NaN.
\<close>

fun f64_div :: "float64 \<Rightarrow> float64 \<Rightarrow> float64" where
  "f64_div (Fin a) (Fin b) =
     (if b \<noteq> 0 then Fin (a / b) else if a = 0 then NaN else f64_signed_inf (0 < a))"
| "f64_div NaN _ = NaN"
| "f64_div _ NaN = NaN"
| "f64_div (Fin a) PInf = Fin 0"
| "f64_div (Fin a) NInf = Fin 0"
| "f64_div PInf (Fin b) = f64_signed_inf (0 \<le> b)"
| "f64_div NInf (Fin b) = f64_signed_inf (b < 0)"
| "f64_div PInf PInf = NaN"
| "f64_div PInf NInf = NaN"
| "f64_div NInf PInf = NaN"
| "f64_div NInf NInf = NaN"

text \<open>\<^verbatim>\<open>math.Round\<close>: to the nearest integer, halves away from zero.\<close>

fun math_Round :: "float64 \<Rightarrow> float64" where
  "math_Round (Fin x) = Fin (sgn x * of_int \<lfloor>\<bar>x\<bar> + 1 / 2\<rfloor>)"
| "math_Round v = v"

fun math_Ceil :: "float64 \<Rightarrow> float64" where
  "math_Ceil (Fin x) = Fin (of_int \<lceil>x\<rceil>)"
| "math_Ceil v = v"

fun math_Sqrt :: "float64 \<Rightarrow> float64" where
  "math_Sqrt (Fin x) = (if x < 0 then NaN else Fin (sqrt x))"
| "math_Sqrt PInf = PInf"
| "math_Sqrt NInf = NaN"
| "math_Sqrt NaN = NaN"

text \<open>\<^verbatim>\<open>float64(n)\<close> for an integer \<open>n\<close>.\<close>

definition float64_of :: "int \<Rightarrow> float64" where
  "float64_of n = Fin (of_int n)"

text \<open>
  The outcomes that end a call without a value: the run-time panics of the functions
  modelled here, and, in \<^verbatim>\<open>setTicks\<close>, the conversion of a non-finite \<^verbatim>\<open>float64\<close> to
  \<^verbatim>\<open>int\<close>, whose result the language leaves to the implementation.
\<close>

datatype panic = IndexOutOfRange | IntegerDivideByZero | MakeSizeOutOfRange
  | ConversionUndefined

text \<open>Conversion of a finite \<^verbatim>\<open>float64\<close> to an integer discards the fraction.\<close>

definition float_trunc :: "real \<Rightarrow> int" where
  "float_trunc x = (if 0 \<le> x then \<lfloor>x\<rfloor> else \<lceil>x\<rceil>)"

text \<open>\<^verbatim>\<open>int(f)\<close>, as \<^verbatim>\<open>setTicks\<close> uses it on the rounded quotient of two counters.\<close>

fun int_of_float64 :: "float64 \<Rightarrow> panic + int" where
  "int_of_float64 (Fin x) = Inr (float_trunc x)"
| "int_of_float64 v = Inl ConversionUndefined"

text \<open>
  \<^verbatim>\<open>time.Duration(f)\<close>. The conversion never panics. When \<open>f\<close> is finite and its integer part
  is an \<^verbatim>\<open>int64\<close>, that is the result; otherwise the result is some \<^verbatim>\<open>int64\<close> that the
  language leaves to the implementation: \<open>conv\<close> stands for the choice that the
  implementation at hand makes.
\<close>

definition Duration_of_float64 :: "(float64 \<Rightarrow> int) \<Rightarrow> float64 \<Rightarrow> Duration" where
  "Duration_of_float64 conv f =
     (case f of
        Fin x \<Rightarrow> if in_int64 (float_trunc x) then float_trunc x else wrap64 (conv f)
      | _ \<Rightarrow> wrap64 (conv f))"

text \<open>
  Integer division \<^verbatim>\<open>a / b\<close> on \<^verbatim>\<open>int64\<close>: truncates towards zero, panics on a zero divisor;
  the one quotient outside the range (the smallest value by \<open>-1\<close>) wraps around.
\<close>

definition trunc_quot :: "int \<Rightarrow> int \<Rightarrow> int" where
  "trunc_quot a b = sgn a * sgn b * (\<bar>a\<bar> div \<bar>b\<bar>)"

definition go_quot :: "int \<Rightarrow> int \<Rightarrow> panic + int" where
  "go_quot a b = (if b = 0 then Inl IntegerDivideByZero else Inr (wrap64 (trunc_quot a b)))"

section \<open>Package bgjob: the background job\<close>

text \<open>
  An \<^verbatim>\<open>error\<close> value as \<^verbatim>\<open>Run\<close> inspects it: an \<^verbatim>\<open>*exec.ExitError\<close> with the value of its
  \<^verbatim>\<open>ExitCode()\<close>, or any other error with its message.
\<close>

datatype go_error = ExitError int | OtherError string

record BackgroundJob =
  Id :: int
  Name :: string
  Command :: "string list"
  Created :: Time
  Started :: Time
  Duration :: Duration
  Stdout :: string
  Stderr :: string
  ExitStatus :: int
  Error :: "go_error option"
  CmdError :: "go_error option"

text \<open>\<^verbatim>\<open>new(BackgroundJob)\<close>: every field has its zero value.\<close>

definition zero_BackgroundJob :: BackgroundJob where
  "zero_BackgroundJob =
     \<lparr>Id = 0, Name = [], Command = [], Created = 0, Started = 0, Duration = 0, Stdout = [],
      Stderr = [], ExitStatus = 0, Error = None, CmdError = None\<rparr>"

text \<open>
  \<^verbatim>\<open>fmt.Sprintf("%s_%06d", prefix, bj.Id)\<close>. The verb \<^verbatim>\<open>%06d\<close> writes the decimal digits
  of the number, padded with zeros on the left to a width of six; a minus sign comes
  first and counts towards the width.
\<close>

fun decimal :: "nat \<Rightarrow> string" where
  "decimal n = (if n < 10 then [''0123456789'' ! n]
                else decimal (n div 10) @ [''0123456789'' ! (n mod 10)])"

definition zero_pad :: "nat \<Rightarrow> string \<Rightarrow> string" where
  "zero_pad width ds = replicate (width - length ds) CHR ''0'' @ ds"

definition fmt_06d :: "int \<Rightarrow> string" where
  "fmt_06d i = (if i < 0 then CHR ''-'' # zero_pad 5 (decimal (nat (- i)))
                else zero_pad 6 (decimal (nat i)))"

definition setName :: "string \<Rightarrow> BackgroundJob \<Rightarrow> BackgroundJob" where
  "setName prefix bj = bj\<lparr>Name := prefix @ ''_'' @ fmt_06d (Id bj)\<rparr>"

definition bgjob_Init :: "int \<Rightarrow> string \<Rightarrow> string list \<Rightarrow> BackgroundJob \<Rightarrow> BackgroundJob" where
  "bgjob_Init jobId prefix command bj =
     (let bj1 = bj\<lparr>Id := jobId\<rparr>;
          bj2 = setName prefix bj1
      in bj2\<lparr>Command := command\<rparr>)"

definition bgjob_New :: "int \<Rightarrow> string \<Rightarrow> string list \<Rightarrow> BackgroundJob" where
  "bgjob_New jobId prefix command = bgjob_Init jobId prefix command zero_BackgroundJob"

definition MarkReady :: "Time \<Rightarrow> BackgroundJob \<Rightarrow> BackgroundJob" where
  "MarkReady now bj = bj\<lparr>Created := now\<rparr>"

definition MarkStarted :: "Time \<Rightarrow> BackgroundJob \<Rightarrow> BackgroundJob" where
  "MarkStarted now bj = bj\<lparr>Started := now\<rparr>"

definition MarkFinished :: "Time \<Rightarrow> BackgroundJob \<Rightarrow> BackgroundJob" where
  "MarkFinished now bj = bj\<lparr>Duration := time_Sub now (Started bj)\<rparr>"

text \<open>
  What the \<^verbatim>\<open>exec.Cmd\<close> of a job shows once \<^verbatim>\<open>cmd.Run()\<close> has returned: the error that
  \<^verbatim>\<open>cmd.Run()\<close> returned, the field \<^verbatim>\<open>cmd.Err\<close> (set by \<^verbatim>\<open>exec.Command\<close> when it cannot
  resolve the executable), and the contents of the two buffers. The child process is
  outside the program, so these are inputs of the model.
\<close>

record cmd_result =
  run_error :: "go_error option"
  cmd_Err :: "go_error option"
  cmd_Stdout :: string
  cmd_Stderr :: string

text \<open>
  What the documentation of package \<^verbatim>\<open>os/exec\<close> says about these values: when
  \<^verbatim>\<open>cmd.Err\<close> is set, \<^verbatim>\<open>cmd.Run()\<close> starts no process and returns that error, which is not
  an \<^verbatim>\<open>*exec.ExitError\<close>; and an \<^verbatim>\<open>*exec.ExitError\<close> reports a process that did not exit
  with status zero (its \<^verbatim>\<open>ExitCode()\<close> is the status, or \<open>-1\<close> when a signal ended the
  process).
\<close>

definition exec_contract :: "cmd_result \<Rightarrow> bool" where
  "exec_contract r =
     ((case cmd_Err r of
         None \<Rightarrow> True
       | Some ce \<Rightarrow> run_error r = Some ce
                    \<and> (case ce of ExitError code \<Rightarrow> False | OtherError msg \<Rightarrow> True))
      \<and> run_error r \<noteq> Some (ExitError 0))"

text \<open>
  The child process, if it was started and waited for, ended by exiting and not by a
  signal: the \<^verbatim>\<open>ExitCode()\<close> of an exit error is the exit status, which is not negative.
\<close>

definition exited_by_itself :: "cmd_result \<Rightarrow> bool" where
  "exited_by_itself r =
     (case run_error r of
        None \<Rightarrow> True
      | Some e \<Rightarrow> (case e of ExitError code \<Rightarrow> 0 \<le> code | OtherError msg \<Rightarrow> True))"

text \<open>
  \<^verbatim>\<open>Run\<close>, with the outcome \<open>r\<close> of the child process and the clock reading \<open>now\<close> taken
  by \<^verbatim>\<open>MarkFinished\<close>. \<^verbatim>\<open>bj.Command[0]\<close> panics on an empty command. The error that the
  Go method returns is the field \<open>Error\<close> of the job returned here.
\<close>

definition bgjob_Run :: "cmd_result \<Rightarrow> Time \<Rightarrow> BackgroundJob \<Rightarrow> panic + BackgroundJob" where
  "bgjob_Run r now bj =
     (case Command bj of
        [] \<Rightarrow> Inl IndexOutOfRange
      | name # args \<Rightarrow>
          let bj1 = bj\<lparr>Error := run_error r\<rparr>;
              bj2 = MarkFinished now bj1;
              bj3 = bj2\<lparr>Stdout := cmd_Stdout r\<rparr>;
              bj4 = bj3\<lparr>Stderr := cmd_Stderr r\<rparr>
          in Inr (case Error bj4 of
                    None \<Rightarrow> bj4
                  | Some e \<Rightarrow>
                      let bj5 = (case e of
                                   ExitError code \<Rightarrow> bj4\<lparr>ExitStatus := code\<rparr>
                                 | OtherError msg \<Rightarrow> bj4\<lparr>ExitStatus := - 1\<rparr>)
                      in (case cmd_Err r of
                            None \<Rightarrow> bj5
                          | Some ce \<Rightarrow> bj5\<lparr>CmdError := Some ce\<rparr>)))"

section \<open>Package bgstats\<close>

text \<open>
  The repository holds two revisions of the statistics accumulator. Their counters,
  \<^verbatim>\<open>Init\<close>, \<^verbatim>\<open>Start\<close>, \<^verbatim>\<open>Finish\<close>, the percentages and \<^verbatim>\<open>CompletionRate\<close> are the same
  text in both, so they are modelled once, over the fields the two share. The current
  revision (\<open>BgQueueStats\<close>) adds the list of all durations; the earlier one
  (\<open>BgQueueStats_agg\<close>) adds the running aggregate, minimum and maximum.
\<close>

record BgQueueCounters =
  started :: Time
  finished :: Time
  Total :: int
  Completed :: int
  Succeeded :: int
  Failed :: int
  Invalid :: int
  ActiveTime :: Duration

record BgQueueStats = BgQueueCounters +
  durations :: "Duration list"

record BgQueueStats_agg = BgQueueCounters +
  AggregateTime :: Duration
  MinDuration :: Duration
  MaxDuration :: Duration

text \<open>\<^verbatim>\<open>new(BgQueueStats)\<close> in either revision: every field has its zero value.\<close>

definition zero_BgQueueStats :: BgQueueStats where
  "zero_BgQueueStats =
     \<lparr>started = 0, finished = 0, Total = 0, Completed = 0, Succeeded = 0, Failed = 0,
      Invalid = 0, ActiveTime = 0, durations = []\<rparr>"

definition zero_BgQueueStats_agg :: BgQueueStats_agg where
  "zero_BgQueueStats_agg =
     \<lparr>started = 0, finished = 0, Total = 0, Completed = 0, Succeeded = 0, Failed = 0,
      Invalid = 0, ActiveTime = 0, AggregateTime = 0, MinDuration = 0, MaxDuration = 0\<rparr>"

definition bgstats_Init :: "int \<Rightarrow> 'a BgQueueCounters_scheme \<Rightarrow> 'a BgQueueCounters_scheme" where
  "bgstats_Init totalJobs bqs = bqs\<lparr>Total := totalJobs\<rparr>"

definition bgstats_New :: "int \<Rightarrow> BgQueueStats" where
  "bgstats_New totalJobs = bgstats_Init totalJobs zero_BgQueueStats"

definition bgstats_New_agg :: "int \<Rightarrow> BgQueueStats_agg" where
  "bgstats_New_agg totalJobs = bgstats_Init totalJobs zero_BgQueueStats_agg"

definition Start :: "Time \<Rightarrow> 'a BgQueueCounters_scheme \<Rightarrow> 'a BgQueueCounters_scheme" where
  "Start now bqs = bqs\<lparr>started := now\<rparr>"

definition Finish :: "Time \<Rightarrow> 'a BgQueueCounters_scheme \<Rightarrow> 'a BgQueueCounters_scheme" where
  "Finish now bqs = (let bqs1 = bqs\<lparr>finished := now\<rparr>
                     in bqs1\<lparr>ActiveTime := time_Sub (finished bqs1) (started bqs1)\<rparr>)"

text \<open>\<^verbatim>\<open>Update\<close> of the current revision.\<close>

definition Update :: "BackgroundJob \<Rightarrow> BgQueueStats \<Rightarrow> BgQueueStats" where
  "Update bj bqs =
     (let bqs1 = bqs\<lparr>Completed := Completed bqs + 1\<rparr>;
          bqs2 = (if ExitStatus bj = 0 then bqs1\<lparr>Succeeded := Succeeded bqs1 + 1\<rparr>
                  else if ExitStatus bj > 0 then bqs1\<lparr>Failed := Failed bqs1 + 1\<rparr>
                  else bqs1\<lparr>Invalid := Invalid bqs1 + 1\<rparr>)
      in bqs2\<lparr>durations := durations bqs2 @ [Duration bj]\<rparr>)"

text \<open>\<^verbatim>\<open>Update\<close> of the earlier revision.\<close>

definition Update_agg :: "BackgroundJob \<Rightarrow> BgQueueStats_agg \<Rightarrow> BgQueueStats_agg" where
  "Update_agg bj bqs =
     (let bqs1 = bqs\<lparr>Completed := Completed bqs + 1\<rparr>;
          bqs2 = (if ExitStatus bj = 0 then bqs1\<lparr>Succeeded := Succeeded bqs1 + 1\<rparr>
                  else if ExitStatus bj > 0 then bqs1\<lparr>Failed := Failed bqs1 + 1\<rparr>
                  else bqs1\<lparr>Invalid := Invalid bqs1 + 1\<rparr>);
          bqs3 = bqs2\<lparr>AggregateTime := wrap64 (AggregateTime bqs2 + Duration bj)\<rparr>;
          bqs4 = (if Duration bj < MinDuration bqs3 \<or> MinDuration bqs3 = 0
                  then bqs3\<lparr>MinDuration := Duration bj\<rparr> else bqs3)
      in if Duration bj > MaxDuration bqs4 then bqs4\<lparr>MaxDuration := Duration bj\<rparr> else bqs4)"

text \<open>The accumulator after the jobs \<open>bjs\<close> have been passed to \<^verbatim>\<open>Update\<close> in this order.\<close>

definition updates :: "BackgroundJob list \<Rightarrow> BgQueueStats \<Rightarrow> BgQueueStats" where
  "updates bjs bqs = foldl (\<lambda>s bj. Update bj s) bqs bjs"

definition updates_agg :: "BackgroundJob list \<Rightarrow> BgQueueStats_agg \<Rightarrow> BgQueueStats_agg" where
  "updates_agg bjs bqs = foldl (\<lambda>s bj. Update_agg bj s) bqs bjs"

subsection \<open>Percentages and completion rate\<close>

definition percentage :: "float64 \<Rightarrow> float64 \<Rightarrow> float64" where
  "percentage fraction total' =
     (let roundingFactor = Fin 1000
      in f64_div (math_Round (f64_mul (f64_mul (f64_div fraction total') (Fin 100)) roundingFactor))
           roundingFactor)"

definition CompletionPercentage :: "'a BgQueueCounters_scheme \<Rightarrow> float64" where
  "CompletionPercentage bqs = percentage (float64_of (Completed bqs)) (float64_of (Total bqs))"

definition SuccessPercentage :: "'a BgQueueCounters_scheme \<Rightarrow> float64" where
  "SuccessPercentage bqs = percentage (float64_of (Succeeded bqs)) (float64_of (Total bqs))"

definition FailurePercentage :: "'a BgQueueCounters_scheme \<Rightarrow> float64" where
  "FailurePercentage bqs = percentage (float64_of (Failed bqs)) (float64_of (Total bqs))"

definition InvalidPercentage :: "'a BgQueueCounters_scheme \<Rightarrow> float64" where
  "InvalidPercentage bqs = percentage (float64_of (Failed bqs)) (float64_of (Total bqs))"

text \<open>\<^verbatim>\<open>d.Seconds()\<close>: the duration as a floating-point number of seconds.\<close>

definition Seconds :: "Duration \<Rightarrow> float64" where
  "Seconds d = Fin (of_int d / 1000000000)"

definition CompletionRate :: "'a BgQueueCounters_scheme \<Rightarrow> float64" where
  "CompletionRate bqs =
     f64_div (Fin 1) (f64_div (Seconds (ActiveTime bqs)) (float64_of (Completed bqs)))"

subsection \<open>Run-time statistics of the current revision\<close>

text \<open>
  The generic helpers \<^verbatim>\<open>sum\<close>, \<^verbatim>\<open>average\<close> and \<^verbatim>\<open>squared\<close> are used at \<^verbatim>\<open>time.Duration\<close>
  and at \<^verbatim>\<open>float64\<close>, \<^verbatim>\<open>min\<close> and \<^verbatim>\<open>max\<close> at \<^verbatim>\<open>time.Duration\<close>; each instance is a
  function of its own here. \<^verbatim>\<open>vals[0]\<close> panics on an empty slice. At \<^verbatim>\<open>time.Duration\<close>
  the additions of \<^verbatim>\<open>sum\<close> are 64-bit additions.
\<close>

definition sum_Duration :: "Duration list \<Rightarrow> Duration" where
  "sum_Duration vals = foldl (\<lambda>tot v. wrap64 (tot + v)) 0 vals"

definition sum_float64 :: "float64 list \<Rightarrow> float64" where
  "sum_float64 vals = foldl (\<lambda>tot v. f64_add tot v) (Fin 0) vals"

definition max_Duration :: "Duration list \<Rightarrow> panic + Duration" where
  "max_Duration vals =
     (case vals of
        [] \<Rightarrow> Inl IndexOutOfRange
      | v0 # rest \<Rightarrow> Inr (foldl (\<lambda>m v. if v > m then v else m) v0 rest))"

definition min_Duration :: "Duration list \<Rightarrow> panic + Duration" where
  "min_Duration vals =
     (case vals of
        [] \<Rightarrow> Inl IndexOutOfRange
      | v0 # rest \<Rightarrow> Inr (foldl (\<lambda>m v. if v < m then v else m) v0 rest))"

definition average_Duration :: "Duration list \<Rightarrow> panic + Duration" where
  "average_Duration vals = go_quot (sum_Duration vals) (int (length vals))"

definition average_float64 :: "float64 list \<Rightarrow> float64" where
  "average_float64 vals = f64_div (sum_float64 vals) (float64_of (int (length vals)))"

definition squared_float64 :: "float64 list \<Rightarrow> float64 list" where
  "squared_float64 vals = foldl (\<lambda>sqd v. sqd @ [f64_mul v v]) [] vals"

definition toSeconds :: "Duration list \<Rightarrow> float64 list" where
  "toSeconds ds = foldl (\<lambda>seconds d. seconds @ [Seconds d]) [] ds"

text \<open>\<^verbatim>\<open>time.Second\<close> is \<open>10\<^sup>9\<close> nanoseconds.\<close>

definition time_Second :: Duration where
  "time_Second = 1000000000"

definition fromSecond :: "(float64 \<Rightarrow> int) \<Rightarrow> float64 \<Rightarrow> Duration" where
  "fromSecond conv second = Duration_of_float64 conv (f64_mul second (float64_of time_Second))"

definition fromSeconds :: "(float64 \<Rightarrow> int) \<Rightarrow> float64 list \<Rightarrow> Duration list" where
  "fromSeconds conv seconds = foldl (\<lambda>ds s. ds @ [fromSecond conv s]) [] seconds"

definition AggregateRunTime :: "BgQueueStats \<Rightarrow> Duration" where
  "AggregateRunTime bqs = sum_Duration (durations bqs)"

definition AverageRunTime :: "BgQueueStats \<Rightarrow> panic + Duration" where
  "AverageRunTime bqs = average_Duration (durations bqs)"

definition MinimumRunTime :: "BgQueueStats \<Rightarrow> panic + Duration" where
  "MinimumRunTime bqs = min_Duration (durations bqs)"

definition MaximumRunTime :: "BgQueueStats \<Rightarrow> panic + Duration" where
  "MaximumRunTime bqs = max_Duration (durations bqs)"

definition Variance :: "(float64 \<Rightarrow> int) \<Rightarrow> BgQueueStats \<Rightarrow> panic + Duration" where
  "Variance conv bqs =
     (let avg = average_float64 (toSeconds (durations bqs));
          deltas = foldl (\<lambda>deltas d. deltas @ [f64_sub d avg]) [] (toSeconds (durations bqs));
          squaredDeltas = fromSeconds conv (squared_float64 deltas)
      in average_Duration squaredDeltas)"

definition StdDev :: "(float64 \<Rightarrow> int) \<Rightarrow> BgQueueStats \<Rightarrow> panic + Duration" where
  "StdDev conv bqs =
     (case Variance conv bqs of
        Inl e \<Rightarrow> Inl e
      | Inr v \<Rightarrow> Inr (fromSecond conv (math_Sqrt (Seconds v))))"

text \<open>
  \<^verbatim>\<open>RootMeanSquare\<close> has no index and no integer division: it cannot panic. On an empty
  list its mean is \<open>0 / 0\<close>, a NaN.
\<close>

definition RootMeanSquare :: "(float64 \<Rightarrow> int) \<Rightarrow> BgQueueStats \<Rightarrow> Duration" where
  "RootMeanSquare conv bqs =
     fromSecond conv (math_Sqrt (average_float64 (squared_float64 (toSeconds (durations bqs)))))"

subsection \<open>Run-time statistics of the earlier revision\<close>

definition AverageRunTime_agg :: "BgQueueStats_agg \<Rightarrow> panic + Duration" where
  "AverageRunTime_agg bqs = go_quot (AggregateTime bqs) (Completed bqs)"

definition MinimumRunTime_agg :: "BgQueueStats_agg \<Rightarrow> Duration" where
  "MinimumRunTime_agg bqs = MinDuration bqs"

definition MaximumRunTime_agg :: "BgQueueStats_agg \<Rightarrow> Duration" where
  "MaximumRunTime_agg bqs = MaxDuration bqs"

section \<open>Package bgqueue: the scheduler\<close>

text \<open>
  The fields of \<^verbatim>\<open>BgQueue\<close> that the sequential code reads and writes. The two channels,
  the wait group and the progress callback belong to the concurrent part of \<^verbatim>\<open>Run\<close>
  and carry no value that the functions below compute with.
\<close>

record BgQueue =
  numJobs :: int
  numSlots :: int
  prefix :: string
  numTicks :: int
  nextTick :: int
  tickStep :: int
  bq_Command :: "string list"
  Jobs :: "BackgroundJob list"
  Stats :: BgQueueStats

definition zero_BgQueue :: BgQueue where
  "zero_BgQueue =
     \<lparr>numJobs = 0, numSlots = 0, prefix = [], numTicks = 0, nextTick = 0, tickStep = 0,
      bq_Command = [], Jobs = [], Stats = zero_BgQueueStats\<rparr>"

definition updateNextTick :: "BgQueue \<Rightarrow> BgQueue" where
  "updateNextTick bq = bq\<lparr>nextTick := min (nextTick bq + tickStep bq) (numJobs bq)\<rparr>"

definition setTicks :: "int \<Rightarrow> BgQueue \<Rightarrow> panic + BgQueue" where
  "setTicks ticks bq =
     (let bq1 = bq\<lparr>numTicks := ticks\<rparr>
      in case int_of_float64
                (math_Ceil (f64_div (float64_of (numJobs bq1)) (float64_of (numTicks bq1)))) of
           Inl e \<Rightarrow> Inl e
         | Inr step \<Rightarrow>
             let bq2 = bq1\<lparr>tickStep := step\<rparr>;
                 bq3 = bq2\<lparr>nextTick := 0\<rparr>
             in Inr (updateNextTick bq3))"

text \<open>
  \<^verbatim>\<open>Init\<close>. \<^verbatim>\<open>make\<close> panics on a negative channel capacity or slice length. The loop
  over \<^verbatim>\<open>bq.Jobs\<close> gives the job at index \<open>i\<close> the id \<open>i\<close>.
\<close>

definition bgqueue_Init ::
  "int \<Rightarrow> int \<Rightarrow> string \<Rightarrow> string list \<Rightarrow> BgQueue \<Rightarrow> panic + BgQueue" where
  "bgqueue_Init totalJobs jobSlots pfx command bq =
     (let bq1 = bq\<lparr>numJobs := totalJobs, numSlots := jobSlots, prefix := pfx,
                   bq_Command := command\<rparr>
      in case setTicks 20 bq1 of
           Inl e \<Rightarrow> Inl e
         | Inr bq2 \<Rightarrow>
             let bq3 = bq2\<lparr>Stats := bgstats_New totalJobs\<rparr>
             in if numSlots bq3 < 0 \<or> numJobs bq3 < 0 then Inl MakeSizeOutOfRange
                else Inr (bq3\<lparr>Jobs := map (\<lambda>i. bgjob_New i ''bgjob'' (bq_Command bq3))
                                         [0 ..  numJobs bq3 - 1]\<rparr>))"

definition bgqueue_New :: "int \<Rightarrow> int \<Rightarrow> string \<Rightarrow> string list \<Rightarrow> panic + BgQueue" where
  "bgqueue_New totalJobs jobSlots pfx command =
     bgqueue_Init totalJobs jobSlots pfx command zero_BgQueue"

text \<open>
  The body of the consumer loop of \<^verbatim>\<open>Run\<close> for one job \<open>bj\<close> received from the result
  channel, and the loop over the jobs in the order in which they are received.
\<close>

definition consume :: "BackgroundJob \<Rightarrow> BgQueue \<Rightarrow> BgQueue" where
  "consume bj bq =
     (let bq1 = bq\<lparr>Stats := Update bj (Stats bq)\<rparr>
      in if Completed (Stats bq1) \<ge> nextTick bq1 then updateNextTick bq1 else bq1)"

definition consume_all :: "BackgroundJob list \<Rightarrow> BgQueue \<Rightarrow> BgQueue" where
  "consume_all bjs bq = foldl (\<lambda>q bj. consume bj q) bq bjs"

section \<open>Arithmetic and list helpers\<close>

lemma foldl_snoc_map: "foldl (\<lambda>acc x. acc @ [f x]) acc0 xs = acc0 @ map f xs"
  by (induction xs arbitrary: acc0) simp_all

lemma toSeconds_map: "toSeconds ds = map Seconds ds"
  by (simp add: toSeconds_def foldl_snoc_map)

lemma squared_float64_map: "squared_float64 vals = map (\<lambda>v. f64_mul v v) vals"
  by (simp add: squared_float64_def foldl_snoc_map)

lemma wrap64_id: "in_int64 x \<Longrightarrow> wrap64 x = x"
  by (simp add: in_int64_def wrap64_def)

lemma wrap64_add_left: "wrap64 (wrap64 a + b) = wrap64 (a + b)"
proof -
  have "((a + 9223372036854775808) mod 18446744073709551616 + b) mod 18446744073709551616
      = (a + 9223372036854775808 + b) mod 18446744073709551616"
    by (rule mod_add_left_eq)
  then show ?thesis by (simp add: wrap64_def algebra_simps)
qed

lemma foldl_wrap64_sum_list:
  "foldl (\<lambda>tot v. wrap64 (tot + v)) (wrap64 a) xs = wrap64 (a + sum_list xs)"
proof (induction xs arbitrary: a)
  case Nil
  show ?case by simp
next
  case (Cons x xs)
  have "foldl (\<lambda>tot v. wrap64 (tot + v)) (wrap64 a) (x # xs)
      = foldl (\<lambda>tot v. wrap64 (tot + v)) (wrap64 (a + x)) xs"
    by (simp add: wrap64_add_left)
  also have "\<dots> = wrap64 (a + x + sum_list xs)" by (rule Cons.IH)
  finally show ?case by (simp add: add.assoc)
qed

lemma sum_Duration_wrap64: "sum_Duration vals = wrap64 (sum_list vals)"
proof -
  have "wrap64 0 = 0" by (simp add: wrap64_def)
  then show ?thesis
    using foldl_wrap64_sum_list [of 0 vals] by (simp add: sum_Duration_def)
qed

lemma sum_Duration_exact: "in_int64 (sum_list vals) \<Longrightarrow> sum_Duration vals = sum_list vals"
  by (simp add: sum_Duration_wrap64 wrap64_id)

lemma foldl_less_Min:
  "foldl (\<lambda>m v. if v < m then v else m) a xs = Min (set (a # xs))" for a :: int
proof -
  have "(\<lambda>v m. if v < m then v else m) = (min :: int \<Rightarrow> int \<Rightarrow> int)"
    by (intro ext) (simp add: min_def)
  then have "foldl (\<lambda>m v. if v < m then v else m) a xs = fold min xs a"
    by (simp add: foldl_conv_fold)
  then show ?thesis by (simp only: Min.set_eq_fold)
qed

lemma foldl_greater_Max:
  "foldl (\<lambda>m v. if v > m then v else m) a xs = Max (set (a # xs))" for a :: int
proof -
  have "(\<lambda>v m. if v > m then v else m) = (max :: int \<Rightarrow> int \<Rightarrow> int)"
    by (intro ext) (simp add: max_def)
  then have "foldl (\<lambda>m v. if v > m then v else m) a xs = fold max xs a"
    by (simp add: foldl_conv_fold)
  then show ?thesis by (simp only: Max.set_eq_fold)
qed

lemma min_Duration_Min: "vals \<noteq> [] \<Longrightarrow> min_Duration vals = Inr (Min (set vals))"
  by (cases vals) (simp_all add: min_Duration_def foldl_less_Min)

lemma max_Duration_Max: "vals \<noteq> [] \<Longrightarrow> max_Duration vals = Inr (Max (set vals))"
  by (cases vals) (simp_all add: max_Duration_def foldl_greater_Max)

lemma sum_list_lower: "(\<And>x. x \<in> set xs \<Longrightarrow> m \<le> x) \<Longrightarrow> m * int (length xs) \<le> sum_list xs"
  by (induction xs) (auto simp: algebra_simps add_mono)

lemma sum_list_upper: "(\<And>x. x \<in> set xs \<Longrightarrow> x \<le> m) \<Longrightarrow> sum_list xs \<le> m * int (length xs)"
  by (induction xs) (auto simp: algebra_simps add_mono)


lemma trunc_quot_lower: assumes "0 < n" "m * n \<le> s" shows "m \<le> trunc_quot s n"
proof (cases "0 \<le> s")
  case True
  have "m = (m * n) div n" using assms(1) by simp
  also have "\<dots> \<le> s div n" using assms by (intro zdiv_mono1) simp_all
  finally show ?thesis using True assms(1) by (cases "s = 0") (simp_all add: trunc_quot_def)
next
  case False
  then have s: "s < 0" by simp
  have "(- s) div n \<le> ((- m) * n) div n" using assms by (intro zdiv_mono1) simp_all
  moreover have "((- m) * n) div n = - m"
    using assms(1) by (intro nonzero_mult_div_cancel_right) simp
  ultimately have "(- s) div n \<le> - m" by simp
  then show ?thesis using s assms(1) by (simp add: trunc_quot_def)
qed

lemma trunc_quot_upper: assumes "0 < n" "s \<le> m * n" shows "trunc_quot s n \<le> m"
proof (cases "0 \<le> s")
  case True
  have "s div n \<le> (m * n) div n" using assms by (intro zdiv_mono1) simp_all
  then show ?thesis using True assms(1) by (cases "s = 0") (simp_all add: trunc_quot_def)
next
  case False
  then have s: "s < 0" by simp
  have "((- m) * n) div n \<le> (- s) div n" using assms by (intro zdiv_mono1) simp_all
  moreover have "((- m) * n) div n = - m"
    using assms(1) by (intro nonzero_mult_div_cancel_right) simp
  ultimately have "- m \<le> (- s) div n" by simp
  then show ?thesis using s assms(1) by (simp add: trunc_quot_def)
qed

lemma trunc_quot_float_trunc:
  assumes "0 < n" shows "trunc_quot s n = float_trunc (real_of_int s / real_of_int n)"
proof (cases "0 \<le> s")
  case True
  then have "0 \<le> real_of_int s / real_of_int n" using assms by simp
  moreover have "\<lfloor>real_of_int s / real_of_int n\<rfloor> = s div n"
    by (simp add: floor_divide_of_int_eq)
  ultimately show ?thesis
    using True assms by (cases "s = 0") (simp_all add: trunc_quot_def float_trunc_def)
next
  case False
  then have s: "s < 0" by simp
  then have neg: "\<not> 0 \<le> real_of_int s / real_of_int n"
    using assms by (simp add: divide_less_0_iff not_le)
  have "\<lceil>real_of_int s / real_of_int n\<rceil> = - \<lfloor>real_of_int (- s) / real_of_int n\<rfloor>"
    by (simp add: ceiling_def)
  also have "\<dots> = - ((- s) div n)" by (simp only: floor_divide_of_int_eq)
  finally show ?thesis using s neg assms by (simp add: trunc_quot_def float_trunc_def)
qed

lemma in_int64_trunc_quot:
  assumes "in_int64 s" and "0 < n"
  shows "in_int64 (trunc_quot s n)"
proof (cases "0 \<le> s")
  case True
  have "s \<le> s * n" using True assms(2) by (simp add: mult_le_cancel_left1)
  then have "trunc_quot s n \<le> s" using assms(2) by (intro trunc_quot_upper)
  moreover have "0 \<le> trunc_quot s n" using True assms(2) by (intro trunc_quot_lower) simp_all
  ultimately show ?thesis using assms(1) by (simp add: in_int64_def)
next
  case False
  then have "s * n \<le> s" using assms(2) by (simp add: mult_le_cancel_left2)
  then have "s \<le> trunc_quot s n" using assms(2) by (intro trunc_quot_lower)
  moreover have "trunc_quot s n \<le> 0" using False assms(2) by (intro trunc_quot_upper) simp_all
  ultimately show ?thesis using assms(1) by (simp add: in_int64_def)
qed

subsection \<open>The counters under \<^verbatim>\<open>Update\<close>\<close>

lemma Update_Completed: "Completed (Update bj s) = Completed s + 1"
  by (simp add: Update_def Let_def)

lemma Update_Succeeded:
  "Succeeded (Update bj s) = Succeeded s + (if ExitStatus bj = 0 then 1 else 0)"
  by (simp add: Update_def Let_def)

lemma Update_Failed:
  "Failed (Update bj s) = Failed s + (if ExitStatus bj > 0 then 1 else 0)"
  by (simp add: Update_def Let_def)

lemma Update_Invalid:
  "Invalid (Update bj s) = Invalid s + (if ExitStatus bj < 0 then 1 else 0)"
  by (simp add: Update_def Let_def)

lemma Update_durations: "durations (Update bj s) = durations s @ [Duration bj]"
  by (simp add: Update_def Let_def)

lemma Update_agg_Completed: "Completed (Update_agg bj s) = Completed s + 1"
  by (simp add: Update_agg_def Let_def)

lemma Update_agg_Succeeded:
  "Succeeded (Update_agg bj s) = Succeeded s + (if ExitStatus bj = 0 then 1 else 0)"
  by (simp add: Update_agg_def Let_def)

lemma Update_agg_Failed:
  "Failed (Update_agg bj s) = Failed s + (if ExitStatus bj > 0 then 1 else 0)"
  by (simp add: Update_agg_def Let_def)

lemma Update_agg_Invalid:
  "Invalid (Update_agg bj s) = Invalid s + (if ExitStatus bj < 0 then 1 else 0)"
  by (simp add: Update_agg_def Let_def)

lemma updates_Nil: "updates [] s = s"
  by (simp add: updates_def)

lemma updates_snoc: "updates (bjs @ [bj]) s = Update bj (updates bjs s)"
  by (simp add: updates_def)

lemma updates_agg_Nil: "updates_agg [] s = s"
  by (simp add: updates_agg_def)

lemma updates_agg_snoc: "updates_agg (bjs @ [bj]) s = Update_agg bj (updates_agg bjs s)"
  by (simp add: updates_agg_def)

lemma New_fields:
  "Completed (bgstats_New n) = 0" "Succeeded (bgstats_New n) = 0" "Failed (bgstats_New n) = 0"
  "Invalid (bgstats_New n) = 0" "durations (bgstats_New n) = []" "Total (bgstats_New n) = n"
  by (simp_all add: bgstats_New_def bgstats_Init_def zero_BgQueueStats_def)

lemma New_agg_fields:
  "Completed (bgstats_New_agg n) = 0" "Succeeded (bgstats_New_agg n) = 0"
  "Failed (bgstats_New_agg n) = 0" "Invalid (bgstats_New_agg n) = 0"
  "Total (bgstats_New_agg n) = n" "AggregateTime (bgstats_New_agg n) = 0"
  "MinDuration (bgstats_New_agg n) = 0" "MaxDuration (bgstats_New_agg n) = 0"
  by (simp_all add: bgstats_New_agg_def bgstats_Init_def zero_BgQueueStats_agg_def)

lemma updates_outcomes:
  "Completed (updates bjs (bgstats_New n)) =
     Succeeded (updates bjs (bgstats_New n)) + Failed (updates bjs (bgstats_New n))
       + Invalid (updates bjs (bgstats_New n))"
proof (induction bjs rule: rev_induct)
  case Nil
  show ?case by (simp add: updates_Nil New_fields)
next
  case (snoc bj bjs)
  then show ?case
    by (simp add: updates_snoc Update_Completed Update_Succeeded Update_Failed Update_Invalid)
qed

lemma updates_agg_outcomes:
  "Completed (updates_agg bjs (bgstats_New_agg n)) =
     Succeeded (updates_agg bjs (bgstats_New_agg n)) + Failed (updates_agg bjs (bgstats_New_agg n))
       + Invalid (updates_agg bjs (bgstats_New_agg n))"
proof (induction bjs rule: rev_induct)
  case Nil
  show ?case by (simp add: updates_agg_Nil New_agg_fields)
next
  case (snoc bj bjs)
  then show ?case
    by (simp add: updates_agg_snoc Update_agg_Completed Update_agg_Succeeded Update_agg_Failed
        Update_agg_Invalid)
qed

lemma updates_durations: "durations (updates bjs s) = durations s @ map Duration bjs"
  by (induction bjs rule: rev_induct) (simp_all add: updates_Nil updates_snoc Update_durations)

lemma updates_Completed: "Completed (updates bjs s) = Completed s + int (length bjs)"
  by (induction bjs rule: rev_induct) (simp_all add: updates_Nil updates_snoc Update_Completed)

subsection \<open>Run-time statistics on a non-empty list of samples\<close>

lemma foldl_f64_add_Fin: "foldl (\<lambda>tot v. f64_add tot v) (Fin a) (map Fin xs) = Fin (a + sum_list xs)"
  by (induction xs arbitrary: a) (simp_all add: add.assoc)

lemma sum_float64_Fin: "sum_float64 (map Fin xs) = Fin (sum_list xs)"
  by (simp add: sum_float64_def foldl_f64_add_Fin)

lemma average_float64_Fin:
  "xs \<noteq> [] \<Longrightarrow> average_float64 (map Fin xs) = Fin (sum_list xs / real (length xs))"
  by (simp add: average_float64_def sum_float64_Fin float64_of_def)

lemma toSeconds_Fin: "toSeconds ds = map Fin (map (\<lambda>d. real_of_int d / 1000000000) ds)"
  by (simp add: toSeconds_map Seconds_def)

lemma squared_float64_Fin: "squared_float64 (map Fin xs) = map Fin (map (\<lambda>x. x * x) xs)"
  by (simp add: squared_float64_map)

lemma fromSeconds_map: "fromSeconds conv seconds = map (fromSecond conv) seconds"
  by (simp add: fromSeconds_def foldl_snoc_map)

lemma average_Duration_nonempty:
  "vals \<noteq> [] \<Longrightarrow> \<exists>v. average_Duration vals = Inr v"
  by (simp add: average_Duration_def go_quot_def)

lemma average_Duration_exact:
  assumes "vals \<noteq> []" and "in_int64 (sum_list vals)"
  shows "average_Duration vals = Inr (trunc_quot (sum_list vals) (int (length vals)))"
proof -
  have n: "0 < int (length vals)" using assms(1) by simp
  have "in_int64 (trunc_quot (sum_list vals) (int (length vals)))"
    using assms(2) n by (rule in_int64_trunc_quot)
  then show ?thesis
    using assms by (simp add: average_Duration_def go_quot_def sum_Duration_exact wrap64_id)
qed

lemma sum_list_nonneg_real: "(\<And>x. x \<in> set xs \<Longrightarrow> 0 \<le> x) \<Longrightarrow> 0 \<le> sum_list xs" for xs :: "real list"
  by (induction xs) auto

lemma Variance_nonempty:
  assumes "durations bqs \<noteq> []"
  shows "\<exists>v. Variance conv bqs = Inr v"
proof -
  have "fromSeconds conv (squared_float64
      (foldl (\<lambda>deltas d. deltas @ [f64_sub d (average_float64 (toSeconds (durations bqs)))]) []
        (toSeconds (durations bqs)))) \<noteq> []"
    using assms by (simp add: fromSeconds_map squared_float64_map foldl_snoc_map toSeconds_map)
  then show ?thesis
    unfolding Variance_def Let_def by (rule average_Duration_nonempty)
qed

lemma StdDev_nonempty:
  assumes "durations bqs \<noteq> []"
  shows "\<exists>v. StdDev conv bqs = Inr v"
proof -
  from Variance_nonempty [OF assms] obtain v where "Variance conv bqs = Inr v" ..
  then show ?thesis by (simp add: StdDev_def)
qed

lemma mean_of_seconds_nonempty:
  assumes "durations bqs \<noteq> []"
  shows "\<exists>x. average_float64 (toSeconds (durations bqs)) = Fin x"
proof -
  have "map (\<lambda>d. real_of_int d / 1000000000) (durations bqs) \<noteq> []" using assms by simp
  from average_float64_Fin [OF this] show ?thesis unfolding toSeconds_Fin by blast
qed

lemma RootMeanSquare_nonempty:
  assumes "durations bqs \<noteq> []"
  shows "\<exists>x. 0 \<le> x \<and> average_float64 (squared_float64 (toSeconds (durations bqs))) = Fin x
    \<and> RootMeanSquare conv bqs = fromSecond conv (Fin (sqrt x))"
proof -
  define xs where "xs = map (\<lambda>x. x * x) (map (\<lambda>d. real_of_int d / 1000000000) (durations bqs))"
  have xs: "xs \<noteq> []" using assms by (simp add: xs_def)
  have "squared_float64 (toSeconds (durations bqs)) = map Fin xs"
    by (simp only: toSeconds_Fin squared_float64_Fin xs_def)
  then have avg: "average_float64 (squared_float64 (toSeconds (durations bqs)))
      = Fin (sum_list xs / real (length xs))"
    using xs by (simp add: average_float64_Fin)
  have "0 \<le> x" if "x \<in> set xs" for x using that by (auto simp: xs_def)
  then have "0 \<le> sum_list xs" by (rule sum_list_nonneg_real)
  then have nonneg: "0 \<le> sum_list xs / real (length xs)" by simp
  then have "RootMeanSquare conv bqs = fromSecond conv (Fin (sqrt (sum_list xs / real (length xs))))"
    by (simp add: RootMeanSquare_def avg)
  with nonneg avg show ?thesis by blast
qed

lemma run_time_order:
  assumes "vals \<noteq> []"
  shows "Min (set vals) \<le> trunc_quot (sum_list vals) (int (length vals))"
    and "trunc_quot (sum_list vals) (int (length vals)) \<le> Max (set vals)"
proof -
  have n: "0 < int (length vals)" using assms by simp
  have "Min (set vals) * int (length vals) \<le> sum_list vals"
    by (rule sum_list_lower) simp
  then show "Min (set vals) \<le> trunc_quot (sum_list vals) (int (length vals))"
    using n by (rule trunc_quot_lower [rotated])
  have "sum_list vals \<le> Max (set vals) * int (length vals)"
    by (rule sum_list_upper) simp
  then show "trunc_quot (sum_list vals) (int (length vals)) \<le> Max (set vals)"
    using n by (rule trunc_quot_upper [rotated])
qed

lemma updates_New_durations: "durations (updates bjs (bgstats_New n)) = map Duration bjs"
  by (simp add: updates_durations New_fields)

lemma updates_New_Completed: "Completed (updates bjs (bgstats_New n)) = int (length bjs)"
  by (simp add: updates_Completed New_fields)

subsection \<open>Run\<close>

lemma bgjob_Run_fresh:
  assumes "Command bj \<noteq> []"
  shows "\<exists>bj'. bgjob_Run r now bj = Inr bj'
    \<and> Error bj' = run_error r
    \<and> ExitStatus bj' = (case run_error r of None \<Rightarrow> ExitStatus bj
                         | Some (ExitError code) \<Rightarrow> code | Some (OtherError msg) \<Rightarrow> - 1)
    \<and> CmdError bj' = (case run_error r of None \<Rightarrow> CmdError bj
                       | Some e \<Rightarrow> (case cmd_Err r of None \<Rightarrow> CmdError bj | Some ce \<Rightarrow> Some ce))"
  using assms
  by (cases "Command bj")
    (simp_all add: bgjob_Run_def MarkFinished_def Let_def split: option.split go_error.split)

subsection \<open>Job names\<close>

lemma bgjob_New_fields:
  "Id (bgjob_New i p c) = i" "Name (bgjob_New i p c) = p @ ''_'' @ fmt_06d i"
  "Command (bgjob_New i p c) = c" "ExitStatus (bgjob_New i p c) = 0"
  "CmdError (bgjob_New i p c) = None"
  by (simp_all add: bgjob_New_def bgjob_Init_def setName_def zero_BackgroundJob_def)

lemma float_trunc_of_int: "float_trunc (real_of_int c) = c"
  by (simp add: float_trunc_def)

lemma setTicks_nonzero:
  assumes "ticks \<noteq> 0"
  shows "setTicks ticks bq =
    Inr (bq\<lparr>numTicks := ticks,
            tickStep := \<lceil>real_of_int (numJobs bq) / real_of_int ticks\<rceil>,
            nextTick := min \<lceil>real_of_int (numJobs bq) / real_of_int ticks\<rceil> (numJobs bq)\<rparr>)"
  using assms
  by (simp add: setTicks_def Let_def float64_of_def float_trunc_of_int updateNextTick_def)

lemma bgqueue_New_result:
  assumes "bgqueue_New totalJobs jobSlots pfx command = Inr bq"
  shows "prefix bq = pfx" and "numJobs bq = totalJobs" and "numSlots bq = jobSlots"
    and "Jobs bq = map (\<lambda>i. bgjob_New i ''bgjob'' command) [0 .. totalJobs - 1]"
    and "Stats bq = bgstats_New totalJobs"
  using assms
  by (auto simp: bgqueue_New_def bgqueue_Init_def Let_def setTicks_nonzero split: if_splits)

subsection \<open>Ticks\<close>

lemma updateNextTick_fields:
  "nextTick (updateNextTick bq) = min (nextTick bq + tickStep bq) (numJobs bq)"
  "tickStep (updateNextTick bq) = tickStep bq" "numJobs (updateNextTick bq) = numJobs bq"
  "Stats (updateNextTick bq) = Stats bq"
  by (simp_all add: updateNextTick_def)

lemma funpow_updateNextTick_fixed:
  "tickStep ((updateNextTick ^^ k) bq) = tickStep bq \<and> numJobs ((updateNextTick ^^ k) bq) = numJobs bq"
  by (induction k) (simp_all add: updateNextTick_fields)

lemma funpow_updateNextTick_closed:
  assumes "0 \<le> tickStep bq" and "nextTick bq = min (tickStep bq) (numJobs bq)"
  shows "nextTick ((updateNextTick ^^ k) bq) = min ((int k + 1) * tickStep bq) (numJobs bq)"
proof (induction k)
  case 0
  show ?case by (simp add: assms(2))
next
  case (Suc k)
  have "nextTick ((updateNextTick ^^ Suc k) bq)
      = min (min ((int k + 1) * tickStep bq) (numJobs bq) + tickStep bq) (numJobs bq)"
    by (simp add: updateNextTick_fields funpow_updateNextTick_fixed Suc)
  also have "\<dots> = min ((int (Suc k) + 1) * tickStep bq) (numJobs bq)"
    using assms(1) by (simp add: min_def algebra_simps)
  finally show ?case .
qed

lemma consume_fields:
  "tickStep (consume bj bq) = tickStep bq" "numJobs (consume bj bq) = numJobs bq"
  "Stats (consume bj bq) = Update bj (Stats bq)"
  "nextTick (consume bj bq) =
     (if Completed (Stats bq) + 1 \<ge> nextTick bq then min (nextTick bq + tickStep bq) (numJobs bq)
      else nextTick bq)"
  by (simp_all add: consume_def Let_def updateNextTick_def Update_Completed)

lemma consume_all_Nil: "consume_all [] bq = bq"
  by (simp add: consume_all_def)

lemma consume_all_snoc: "consume_all (bjs @ [bj]) bq = consume bj (consume_all bjs bq)"
  by (simp add: consume_all_def)

lemma consume_all_fixed:
  "tickStep (consume_all bjs bq) = tickStep bq \<and> numJobs (consume_all bjs bq) = numJobs bq
   \<and> Stats (consume_all bjs bq) = updates bjs (Stats bq)"
  by (induction bjs rule: rev_induct)
    (simp_all add: consume_all_Nil consume_all_snoc consume_fields updates_Nil updates_snoc)

lemma consume_all_nextTick:
  assumes "0 \<le> tickStep bq" and "nextTick bq \<le> numJobs bq"
  shows "nextTick (consume_all bjs bq) \<le> numJobs bq
    \<and> nextTick (consume_all bjs bq) \<le> nextTick (consume_all (bjs @ [bj]) bq)"
proof -
  have le: "nextTick (consume_all bjs bq) \<le> numJobs bq" for bjs
    using assms(2)
    by (induction bjs rule: rev_induct)
      (simp_all add: consume_all_Nil consume_all_snoc consume_fields consume_all_fixed)
  show ?thesis
    using le [of bjs] assms(1)
    by (simp add: consume_all_snoc consume_fields consume_all_fixed)
qed

section \<open>The claims\<close>

text \<open>
  Claim C1. Each outcome percentage should be the rounded share of its own counter, so
  that the three add up to 100 once every job has completed. \<^verbatim>\<open>SuccessPercentage\<close> and
  \<^verbatim>\<open>FailurePercentage\<close> read their own counters, but \<^verbatim>\<open>InvalidPercentage\<close> reads \<open>Failed\<close>:
  in both revisions it returns the same value as \<^verbatim>\<open>FailurePercentage\<close>. After one
  succeeded and one invalid job out of two, the share of invalid jobs is 50 and
  \<^verbatim>\<open>InvalidPercentage\<close> is 0, and the three percentages add up to 50.
\<close>

theorem C1_InvalidPercentage_uses_Failed:
  "InvalidPercentage bqs = percentage (float64_of (Failed bqs)) (float64_of (Total bqs))
   \<and> InvalidPercentage bqs = FailurePercentage bqs
   \<and> (let bqs0 = updates [zero_BackgroundJob\<lparr>ExitStatus := 0\<rparr>,
                          zero_BackgroundJob\<lparr>ExitStatus := - 1\<rparr>] (bgstats_New 2)
      in Total bqs0 = 2 \<and> Completed bqs0 = 2 \<and> Succeeded bqs0 = 1 \<and> Failed bqs0 = 0
         \<and> Invalid bqs0 = 1
         \<and> percentage (float64_of (Invalid bqs0)) (float64_of (Total bqs0)) = Fin 50
         \<and> InvalidPercentage bqs0 = Fin 0
         \<and> SuccessPercentage bqs0 = Fin 50
         \<and> FailurePercentage bqs0 = Fin 0)"
  by (simp add: InvalidPercentage_def SuccessPercentage_def FailurePercentage_def
      percentage_def float64_of_def updates_def Update_def bgstats_New_def bgstats_Init_def
      zero_BgQueueStats_def zero_BackgroundJob_def)

text \<open>
  Claim C2. From a fresh accumulator, after any sequence of \<^verbatim>\<open>Update\<close> calls,
  \<open>Completed = Succeeded + Failed + Invalid\<close>; one call adds one to \<open>Completed\<close> and one
  to exactly one of \<open>Succeeded\<close> (exit status zero), \<open>Failed\<close> (positive) and \<open>Invalid\<close>
  (negative). This holds in both revisions of the accumulator.
\<close>

theorem C2_outcomes_partition_completed:
  "Completed (updates bjs (bgstats_New n)) =
     Succeeded (updates bjs (bgstats_New n)) + Failed (updates bjs (bgstats_New n))
       + Invalid (updates bjs (bgstats_New n))
   \<and> Completed (Update bj s) = Completed s + 1
   \<and> Succeeded (Update bj s) = Succeeded s + (if ExitStatus bj = 0 then 1 else 0)
   \<and> Failed (Update bj s) = Failed s + (if ExitStatus bj > 0 then 1 else 0)
   \<and> Invalid (Update bj s) = Invalid s + (if ExitStatus bj < 0 then 1 else 0)
   \<and> Completed (updates_agg bjs (bgstats_New_agg n)) =
     Succeeded (updates_agg bjs (bgstats_New_agg n))
       + Failed (updates_agg bjs (bgstats_New_agg n))
       + Invalid (updates_agg bjs (bgstats_New_agg n))
   \<and> Completed (Update_agg bj t) = Completed t + 1
   \<and> Succeeded (Update_agg bj t) = Succeeded t + (if ExitStatus bj = 0 then 1 else 0)
   \<and> Failed (Update_agg bj t) = Failed t + (if ExitStatus bj > 0 then 1 else 0)
   \<and> Invalid (Update_agg bj t) = Invalid t + (if ExitStatus bj < 0 then 1 else 0)"
  using updates_outcomes [of bjs n] updates_agg_outcomes [of bjs n]
    Update_Completed [of bj s] Update_Succeeded [of bj s] Update_Failed [of bj s]
    Update_Invalid [of bj s] Update_agg_Completed [of bj t] Update_agg_Succeeded [of bj t]
    Update_agg_Failed [of bj t] Update_agg_Invalid [of bj t]
  by (intro conjI)

text \<open>
  Claim C3, as the code has it. \<^verbatim>\<open>CompletionRate\<close> computes \<open>1 / (ActiveTime\<^sub>s / Completed)\<close>
  with no test of either operand. When \<open>ActiveTime\<close> is not zero the result is
  \<open>Completed / ActiveTime\<^sub>s\<close> (also for \<open>Completed = 0\<close>, through an infinite intermediate
  quotient). When \<open>ActiveTime\<close> is zero the divisions by zero are carried out: the result
  is \<open>+Inf\<close> for a positive \<open>Completed\<close> and NaN for \<open>Completed = 0\<close>.
\<close>

theorem C3_CompletionRate_value:
  "(ActiveTime bqs \<noteq> 0 \<longrightarrow>
      CompletionRate bqs
        = Fin (real_of_int (Completed bqs) / (real_of_int (ActiveTime bqs) / 1000000000))
      \<and> CompletionRate bqs
        = f64_div (float64_of (Completed bqs)) (Seconds (ActiveTime bqs)))
   \<and> (ActiveTime bqs = 0 \<and> 0 < Completed bqs \<longrightarrow> CompletionRate bqs = PInf)
   \<and> (ActiveTime bqs = 0 \<and> Completed bqs = 0 \<longrightarrow> CompletionRate bqs = NaN)"
  by (simp add: CompletionRate_def Seconds_def float64_of_def f64_signed_inf_def)

text \<open>
  The three cases at concrete accumulators: five jobs in two seconds, one job with start
  and finish at the same clock reading, and a fresh accumulator.
\<close>

theorem C3_witness:
  "ActiveTime (Finish 2000000007 (updates [zero_BackgroundJob, zero_BackgroundJob, zero_BackgroundJob,
      zero_BackgroundJob, zero_BackgroundJob] (Start 7 (bgstats_New 5)))) \<noteq> 0
   \<and> CompletionRate (Finish 2000000007 (updates [zero_BackgroundJob, zero_BackgroundJob, zero_BackgroundJob,
      zero_BackgroundJob, zero_BackgroundJob] (Start 7 (bgstats_New 5)))) = Fin (5 / 2)
   \<and> ActiveTime (Finish 7 (Update zero_BackgroundJob (Start 7 (bgstats_New 1)))) = 0
   \<and> 0 < Completed (Finish 7 (Update zero_BackgroundJob (Start 7 (bgstats_New 1))))
   \<and> CompletionRate (Finish 7 (Update zero_BackgroundJob (Start 7 (bgstats_New 1)))) = PInf
   \<and> ActiveTime (bgstats_New 5) = 0 \<and> Completed (bgstats_New 5) = 0
   \<and> CompletionRate (bgstats_New 5) = NaN"
proof -
  define a where "a = Finish 2000000007 (updates [zero_BackgroundJob, zero_BackgroundJob,
    zero_BackgroundJob, zero_BackgroundJob, zero_BackgroundJob] (Start 7 (bgstats_New 5)))"
  define b where "b = Finish 7 (Update zero_BackgroundJob (Start 7 (bgstats_New 1)))"
  have a: "ActiveTime a = 2000000000" "Completed a = 5"
    by (simp_all add: a_def Finish_def Start_def updates_def Update_def bgstats_New_def
        bgstats_Init_def zero_BgQueueStats_def zero_BackgroundJob_def time_Sub_def sat64_def)
  have b: "ActiveTime b = 0" "Completed b = 1"
    by (simp_all add: b_def Finish_def Start_def Update_def bgstats_New_def
        bgstats_Init_def zero_BgQueueStats_def zero_BackgroundJob_def time_Sub_def sat64_def)
  have c: "ActiveTime (bgstats_New 5) = 0" "Completed (bgstats_New 5) = 0"
    by (simp_all add: bgstats_New_def bgstats_Init_def zero_BgQueueStats_def)
  have "CompletionRate a = Fin (5 / 2)"
    using C3_CompletionRate_value [of a] by (simp add: a)
  moreover have "CompletionRate b = PInf"
    using C3_CompletionRate_value [of b] by (simp add: b)
  moreover have "CompletionRate (bgstats_New 5) = NaN"
    using C3_CompletionRate_value [of "bgstats_New 5"] by (simp add: c)
  ultimately show ?thesis using a b c unfolding a_def b_def by simp
qed

text \<open>
  Against claim C3 as stated (the division is guarded): on a fresh accumulator both
  operands are zero, the inner quotient is \<open>0 / 0\<close> and the result is NaN; with one
  completed job and a zero \<open>ActiveTime\<close> the result is \<open>+Inf\<close>.
\<close>

theorem C3_CompletionRate_not_guarded:
  "ActiveTime (bgstats_New 5) = 0 \<and> Completed (bgstats_New 5) = 0
   \<and> f64_div (Seconds (ActiveTime (bgstats_New 5))) (float64_of (Completed (bgstats_New 5))) = NaN
   \<and> CompletionRate (bgstats_New 5) = NaN
   \<and> ActiveTime (Finish 7 (Update zero_BackgroundJob (Start 7 (bgstats_New 1)))) = 0
   \<and> Completed (Finish 7 (Update zero_BackgroundJob (Start 7 (bgstats_New 1)))) = 1
   \<and> CompletionRate (Finish 7 (Update zero_BackgroundJob (Start 7 (bgstats_New 1)))) = PInf"
  by (simp add: CompletionRate_def Seconds_def float64_of_def bgstats_New_def bgstats_Init_def
      zero_BgQueueStats_def Finish_def Start_def Update_def zero_BackgroundJob_def
      f64_signed_inf_def time_Sub_def sat64_def)

text \<open>
  Claim C4, as the code has it. Take a job that has not run (exit status zero, no
  \<open>CmdError\<close>, a non-empty command) and an outcome that respects the contract of
  \<^verbatim>\<open>os/exec\<close> and in which no signal ended the process. \<^verbatim>\<open>Run\<close> returns normally; the
  exit status is 0 when \<^verbatim>\<open>cmd.Run()\<close> returned no error, the exit code when it returned an
  exit error, and \<open>-1\<close> when it returned any other error; \<open>CmdError\<close> is \<^verbatim>\<open>cmd.Err\<close>. So a
  recorded \<open>CmdError\<close> implies the exit status \<open>-1\<close>; the exit status is negative (and
  then is \<open>-1\<close>) exactly when \<^verbatim>\<open>cmd.Run()\<close> returned an error that is not an exit error;
  it is zero exactly when \<^verbatim>\<open>cmd.Run()\<close> returned no error; it is positive exactly when
  \<^verbatim>\<open>cmd.Run()\<close> returned an exit error with that code, and then no \<open>CmdError\<close> is recorded.
\<close>

theorem C4_exit_status_and_launch_error:
  assumes "exec_contract r" and "exited_by_itself r" and "Command bj \<noteq> []"
    and "ExitStatus bj = 0" and "CmdError bj = None"
  shows "\<exists>bj'. bgjob_Run r now bj = Inr bj'
    \<and> Error bj' = run_error r \<and> CmdError bj' = cmd_Err r
    \<and> ExitStatus bj' = (case run_error r of
                           None \<Rightarrow> 0
                         | Some e \<Rightarrow> (case e of ExitError code \<Rightarrow> code | OtherError msg \<Rightarrow> - 1))
    \<and> (CmdError bj' \<noteq> None \<longrightarrow> ExitStatus bj' = - 1)
    \<and> (ExitStatus bj' < 0 \<longleftrightarrow> (\<exists>msg. run_error r = Some (OtherError msg)))
    \<and> (ExitStatus bj' < 0 \<longrightarrow> ExitStatus bj' = - 1)
    \<and> (ExitStatus bj' = 0 \<longleftrightarrow> run_error r = None)
    \<and> (ExitStatus bj' > 0 \<longleftrightarrow> run_error r = Some (ExitError (ExitStatus bj')))
    \<and> (ExitStatus bj' > 0 \<longrightarrow> CmdError bj' = None)"
proof -
  from bgjob_Run_fresh [OF assms(3), of r now] obtain bj' where
    run: "bgjob_Run r now bj = Inr bj'" and err: "Error bj' = run_error r"
    and st: "ExitStatus bj' = (case run_error r of None \<Rightarrow> ExitStatus bj
                         | Some (ExitError code) \<Rightarrow> code | Some (OtherError msg) \<Rightarrow> - 1)"
    and ce: "CmdError bj' = (case run_error r of None \<Rightarrow> CmdError bj
                       | Some e \<Rightarrow> (case cmd_Err r of None \<Rightarrow> CmdError bj | Some ce \<Rightarrow> Some ce))"
    by blast
  have "Error bj' = run_error r \<and> CmdError bj' = cmd_Err r
    \<and> ExitStatus bj' = (case run_error r of
                           None \<Rightarrow> 0
                         | Some e \<Rightarrow> (case e of ExitError code \<Rightarrow> code | OtherError msg \<Rightarrow> - 1))
    \<and> (CmdError bj' \<noteq> None \<longrightarrow> ExitStatus bj' = - 1)
    \<and> (ExitStatus bj' < 0 \<longleftrightarrow> (\<exists>msg. run_error r = Some (OtherError msg)))
    \<and> (ExitStatus bj' < 0 \<longrightarrow> ExitStatus bj' = - 1)
    \<and> (ExitStatus bj' = 0 \<longleftrightarrow> run_error r = None)
    \<and> (ExitStatus bj' > 0 \<longleftrightarrow> run_error r = Some (ExitError (ExitStatus bj')))
    \<and> (ExitStatus bj' > 0 \<longrightarrow> CmdError bj' = None)"
    using assms(1,2,4,5) err st ce
    by (auto simp: exec_contract_def exited_by_itself_def split: option.splits go_error.splits)
  with run show ?thesis by (intro exI [of _ bj']) (rule conjI)
qed

text \<open>
  Three outcomes: a command that \<^verbatim>\<open>exec.Command\<close> cannot resolve (\<open>CmdError\<close> recorded, exit
  status \<open>-1\<close>), a command that exits with status 7, and a command that succeeds.
\<close>

theorem C4_witness:
  "exec_contract
     \<lparr>run_error = Some (OtherError ''exec: no-such-cmd: executable file not found in $PATH''),
      cmd_Err = Some (OtherError ''exec: no-such-cmd: executable file not found in $PATH''),
      cmd_Stdout = [], cmd_Stderr = []\<rparr>
   \<and> exited_by_itself
     \<lparr>run_error = Some (OtherError ''exec: no-such-cmd: executable file not found in $PATH''),
      cmd_Err = Some (OtherError ''exec: no-such-cmd: executable file not found in $PATH''),
      cmd_Stdout = [], cmd_Stderr = []\<rparr>
   \<and> Command (bgjob_New 0 ''bgjob'' [''no-such-cmd'']) \<noteq> []
   \<and> ExitStatus (bgjob_New 0 ''bgjob'' [''no-such-cmd'']) = 0
   \<and> CmdError (bgjob_New 0 ''bgjob'' [''no-such-cmd'']) = None
   \<and> (\<exists>bj'. bgjob_Run
          \<lparr>run_error = Some (OtherError ''exec: no-such-cmd: executable file not found in $PATH''),
           cmd_Err = Some (OtherError ''exec: no-such-cmd: executable file not found in $PATH''),
           cmd_Stdout = [], cmd_Stderr = []\<rparr> 9 (bgjob_New 0 ''bgjob'' [''no-such-cmd''])
          = Inr bj'
        \<and> CmdError bj' \<noteq> None \<and> ExitStatus bj' = - 1)
   \<and> (\<exists>bj'. bgjob_Run
          \<lparr>run_error = Some (ExitError 7), cmd_Err = None, cmd_Stdout = [], cmd_Stderr = []\<rparr>
          9 (bgjob_New 0 ''bgjob'' [''no-such-cmd''])
          = Inr bj'
        \<and> CmdError bj' = None \<and> ExitStatus bj' = 7)
   \<and> (\<exists>bj'. bgjob_Run
          \<lparr>run_error = None, cmd_Err = None, cmd_Stdout = [], cmd_Stderr = []\<rparr>
          9 (bgjob_New 0 ''bgjob'' [''no-such-cmd''])
          = Inr bj'
        \<and> CmdError bj' = None \<and> ExitStatus bj' = 0)"
proof -
  define r where "r = \<lparr>run_error = Some (OtherError ''exec: no-such-cmd: executable file not found in $PATH''),
      cmd_Err = Some (OtherError ''exec: no-such-cmd: executable file not found in $PATH''),
      cmd_Stdout = [], cmd_Stderr = []\<rparr>"
  define r7 where "r7 = \<lparr>run_error = Some (ExitError 7), cmd_Err = None, cmd_Stdout = [],
      cmd_Stderr = []\<rparr>"
  define r0 where "r0 = \<lparr>run_error = None, cmd_Err = None, cmd_Stdout = [], cmd_Stderr = []\<rparr>"
  define bj where "bj = bgjob_New 0 ''bgjob'' [''no-such-cmd'']"
  have h1: "exec_contract r" "exec_contract r7" "exec_contract r0"
    by (simp_all add: r_def r7_def r0_def exec_contract_def)
  have h2: "exited_by_itself r" "exited_by_itself r7" "exited_by_itself r0"
    by (simp_all add: r_def r7_def r0_def exited_by_itself_def)
  have h3: "Command bj \<noteq> []" and h4: "ExitStatus bj = 0" and h5: "CmdError bj = None"
    by (simp_all add: bj_def bgjob_New_def bgjob_Init_def setName_def zero_BackgroundJob_def)
  have f: "cmd_Err r \<noteq> None" "run_error r = Some (OtherError ''exec: no-such-cmd: executable file not found in $PATH'')"
    "cmd_Err r7 = None" "run_error r7 = Some (ExitError 7)" "cmd_Err r0 = None" "run_error r0 = None"
    by (simp_all add: r_def r7_def r0_def)
  have a: "\<exists>bj'. bgjob_Run r 9 bj = Inr bj' \<and> CmdError bj' \<noteq> None \<and> ExitStatus bj' = - 1"
    using C4_exit_status_and_launch_error [OF h1(1) h2(1) h3 h4 h5, of 9] f(1,2) by auto
  have b: "\<exists>bj'. bgjob_Run r7 9 bj = Inr bj' \<and> CmdError bj' = None \<and> ExitStatus bj' = 7"
    using C4_exit_status_and_launch_error [OF h1(2) h2(2) h3 h4 h5, of 9] f(3,4) by auto
  have c: "\<exists>bj'. bgjob_Run r0 9 bj = Inr bj' \<and> CmdError bj' = None \<and> ExitStatus bj' = 0"
    using C4_exit_status_and_launch_error [OF h1(3) h2(3) h3 h4 h5, of 9] f(5,6) by auto
  from h1(1) h2(1) h3 h4 h5 a b c show ?thesis unfolding r_def r7_def r0_def bj_def by blast
qed

text \<open>
  Against claim C4 as stated (a negative exit status if and only if \<open>CmdError\<close> is
  set): a command given by a path that does not exist. \<^verbatim>\<open>exec.Command\<close> does not look a
  path up, so \<^verbatim>\<open>cmd.Err\<close> stays unset; \<^verbatim>\<open>cmd.Run()\<close> fails to start the process. The job
  ends with exit status \<open>-1\<close> and no \<open>CmdError\<close>.
\<close>

theorem C4_launch_failure_without_cause:
  "bgjob_Run
     \<lparr>run_error = Some (OtherError ''fork/exec /no/such/cmd: no such file or directory''),
      cmd_Err = None, cmd_Stdout = [], cmd_Stderr = []\<rparr>
     9 (MarkStarted 4 (MarkReady 1 (bgjob_New 0 ''bgjob'' [''/no/such/cmd''])))
   = Inr \<lparr>Id = 0, Name = ''bgjob_000000'', Command = [''/no/such/cmd''], Created = 1,
          Started = 4, Duration = 5, Stdout = [], Stderr = [], ExitStatus = - 1,
          Error = Some (OtherError ''fork/exec /no/such/cmd: no such file or directory''),
          CmdError = None\<rparr>"
  by (simp add: bgjob_Run_def MarkFinished_def MarkStarted_def MarkReady_def bgjob_New_def
      bgjob_Init_def setName_def fmt_06d_def zero_pad_def zero_BackgroundJob_def
      numeral_eq_Suc time_Sub_def sat64_def)

text \<open>
  Claim C6, as the code has it. Whenever the list of stored durations is not empty and
  their sum is an \<^verbatim>\<open>int64\<close>, the three queries return values with
  \<open>MinimumRunTime \<le> AverageRunTime \<le> MaximumRunTime\<close>, where the minimum and the maximum
  are those of the stored durations and the average is their mean with the fraction
  discarded. This holds for every accumulator, whatever calls produced it.
\<close>

theorem C6_min_average_max:
  assumes "durations bqs \<noteq> []" and "in_int64 (sum_list (durations bqs))"
  shows "\<exists>mn av mx.
      MinimumRunTime bqs = Inr mn \<and> AverageRunTime bqs = Inr av \<and> MaximumRunTime bqs = Inr mx
      \<and> mn \<le> av \<and> av \<le> mx
      \<and> mn = Min (set (durations bqs)) \<and> mx = Max (set (durations bqs))
      \<and> av = float_trunc (real_of_int (sum_list (durations bqs)) / real (length (durations bqs)))"
proof -
  have n: "0 < int (length (durations bqs))" using assms(1) by simp
  show ?thesis
    using assms(1) run_time_order [OF assms(1)]
      trunc_quot_float_trunc [OF n, of "sum_list (durations bqs)"]
    by (simp add: AverageRunTime_def MinimumRunTime_def MaximumRunTime_def
        average_Duration_exact [OF assms] min_Duration_Min max_Duration_Max)
qed

text \<open>
  Two jobs, of 3 and 8 nanoseconds, counted between \<^verbatim>\<open>Start\<close> and \<^verbatim>\<open>Finish\<close>: the minimum
  is 3, the average 5 and the maximum 8.
\<close>

theorem C6_witness:
  "durations (Finish 20 (updates [zero_BackgroundJob\<lparr>Duration := 3\<rparr>,
      zero_BackgroundJob\<lparr>Duration := 8\<rparr>] (Start 1 (bgstats_New 2)))) \<noteq> []
   \<and> in_int64 (sum_list (durations (Finish 20 (updates [zero_BackgroundJob\<lparr>Duration := 3\<rparr>,
      zero_BackgroundJob\<lparr>Duration := 8\<rparr>] (Start 1 (bgstats_New 2))))))
   \<and> MinimumRunTime (Finish 20 (updates [zero_BackgroundJob\<lparr>Duration := 3\<rparr>,
      zero_BackgroundJob\<lparr>Duration := 8\<rparr>] (Start 1 (bgstats_New 2)))) = Inr 3
   \<and> AverageRunTime (Finish 20 (updates [zero_BackgroundJob\<lparr>Duration := 3\<rparr>,
      zero_BackgroundJob\<lparr>Duration := 8\<rparr>] (Start 1 (bgstats_New 2)))) = Inr 5
   \<and> MaximumRunTime (Finish 20 (updates [zero_BackgroundJob\<lparr>Duration := 3\<rparr>,
      zero_BackgroundJob\<lparr>Duration := 8\<rparr>] (Start 1 (bgstats_New 2)))) = Inr 8"
proof -
  define bqs where "bqs = Finish 20 (updates [zero_BackgroundJob\<lparr>Duration := 3\<rparr>,
    zero_BackgroundJob\<lparr>Duration := 8\<rparr>] (Start 1 (bgstats_New 2)))"
  have d: "durations bqs = [3, 8]"
    by (simp add: bqs_def Finish_def Start_def updates_def Update_def bgstats_New_def
        bgstats_Init_def zero_BgQueueStats_def zero_BackgroundJob_def)
  have h1: "durations bqs \<noteq> []" and h2: "in_int64 (sum_list (durations bqs))"
    by (simp_all add: d in_int64_def)
  have "float_trunc (real_of_int (sum_list (durations bqs)) / real (length (durations bqs))) = 5"
    by (simp add: d float_trunc_def)
  with C6_min_average_max [OF h1 h2]
  have "MinimumRunTime bqs = Inr 3 \<and> AverageRunTime bqs = Inr 5 \<and> MaximumRunTime bqs = Inr 8"
    by (auto simp: d)
  with h1 h2 show ?thesis unfolding bqs_def by simp
qed

text \<open>
  Against claim C6 as stated (the order holds whenever a job has completed): \<^verbatim>\<open>Run\<close>
  called on a job that was never marked as started measures from the zero instant, and
  \<^verbatim>\<open>time.Time.Sub\<close> saturates: the duration is the largest \<^verbatim>\<open>int64\<close>. After two jobs of
  that duration the 64-bit sum is \<open>-2\<close>, so the average is \<open>-1\<close>, below the minimum.
\<close>

theorem C6_average_below_minimum:
  "bgjob_Run \<lparr>run_error = None, cmd_Err = None, cmd_Stdout = [], cmd_Stderr = []\<rparr>
     63900000000000000000 (bgjob_New 0 ''bgjob'' [''true''])
     = Inr \<lparr>Id = 0, Name = ''bgjob_000000'', Command = [''true''], Created = 0, Started = 0,
            Duration = 9223372036854775807, Stdout = [], Stderr = [], ExitStatus = 0,
            Error = None, CmdError = None\<rparr>
   \<and> Completed (updates [zero_BackgroundJob\<lparr>Duration := 9223372036854775807\<rparr>,
        zero_BackgroundJob\<lparr>Duration := 9223372036854775807\<rparr>] (bgstats_New 2)) = 2
   \<and> AggregateRunTime (updates [zero_BackgroundJob\<lparr>Duration := 9223372036854775807\<rparr>,
        zero_BackgroundJob\<lparr>Duration := 9223372036854775807\<rparr>] (bgstats_New 2)) = - 2
   \<and> MinimumRunTime (updates [zero_BackgroundJob\<lparr>Duration := 9223372036854775807\<rparr>,
        zero_BackgroundJob\<lparr>Duration := 9223372036854775807\<rparr>] (bgstats_New 2))
       = Inr 9223372036854775807
   \<and> AverageRunTime (updates [zero_BackgroundJob\<lparr>Duration := 9223372036854775807\<rparr>,
        zero_BackgroundJob\<lparr>Duration := 9223372036854775807\<rparr>] (bgstats_New 2)) = Inr (- 1)
   \<and> MaximumRunTime (updates [zero_BackgroundJob\<lparr>Duration := 9223372036854775807\<rparr>,
        zero_BackgroundJob\<lparr>Duration := 9223372036854775807\<rparr>] (bgstats_New 2))
       = Inr 9223372036854775807"
  by (simp add: bgjob_Run_def MarkFinished_def time_Sub_def sat64_def bgjob_New_def
      bgjob_Init_def setName_def fmt_06d_def zero_pad_def numeral_eq_Suc
      zero_BackgroundJob_def updates_def Update_def bgstats_New_def bgstats_Init_def
      zero_BgQueueStats_def AggregateRunTime_def MinimumRunTime_def AverageRunTime_def
      MaximumRunTime_def min_Duration_def max_Duration_def average_Duration_def
      sum_Duration_def go_quot_def trunc_quot_def wrap64_def)

text \<open>
  Claim C7. A job built by \<^verbatim>\<open>bgjob.New\<close> is named by its prefix, an underscore and the id
  in six zero-padded digits. The scheduler records the prefix it is configured with but
  passes the constant \<^verbatim>\<open>"bgjob"\<close> to \<^verbatim>\<open>bgjob.New\<close>: whatever the configured prefix, the job
  with id \<open>i\<close> is named \<open>bgjob_\<close> followed by the digits of \<open>i\<close>.
\<close>

theorem C7_job_names_ignore_prefix:
  assumes "bgqueue_New totalJobs jobSlots pfx command = Inr bq"
  shows "prefix bq = pfx
    \<and> map Id (Jobs bq) = [0 .. totalJobs - 1]
    \<and> map Name (Jobs bq) = map (\<lambda>i. ''bgjob_'' @ fmt_06d i) [0 .. totalJobs - 1]
    \<and> Name (bgjob_New i pfx command) = pfx @ ''_'' @ fmt_06d i"
  by (simp add: bgqueue_New_result [OF assms] bgjob_New_fields comp_def)

text \<open>
  A scheduler configured with the prefix \<open>xy\<close>: its jobs are named \<open>bgjob_000000\<close> and
  \<open>bgjob_000001\<close>, where the prefix would give \<open>xy_000000\<close> and \<open>xy_000001\<close>.
\<close>

theorem C7_witness:
  "\<exists>bq. bgqueue_New 2 1 ''xy'' [''echo''] = Inr bq
     \<and> prefix bq = ''xy''
     \<and> map Name (Jobs bq) = [''bgjob_000000'', ''bgjob_000001'']
     \<and> Name (bgjob_New 1 ''xy'' [''echo'']) = ''xy_000001''"
proof -
  have "\<exists>bq. bgqueue_New 2 1 ''xy'' [''echo''] = Inr bq"
    by (simp add: bgqueue_New_def bgqueue_Init_def Let_def setTicks_nonzero)
  then obtain bq where bq: "bgqueue_New 2 1 ''xy'' [''echo''] = Inr bq" ..
  have l: "[0 .. 1] = [0, 1::int]" by (simp add: upto.simps)
  have f: "fmt_06d 0 = ''000000''" "fmt_06d 1 = ''000001''"
    by (simp_all add: fmt_06d_def zero_pad_def numeral_eq_Suc)
  from C7_job_names_ignore_prefix [OF bq, of 1] have
    "prefix bq = ''xy'' \<and> map Name (Jobs bq) = [''bgjob_000000'', ''bgjob_000001'']
     \<and> Name (bgjob_New 1 ''xy'' [''echo'']) = ''xy_000001''"
    by (simp add: l f)
  with bq show ?thesis by (intro exI [of _ bq]) (rule conjI)
qed

text \<open>
  Claim C8. For \<open>N \<ge> 1\<close> jobs and \<open>numTicks \<ge> 1\<close>, \<^verbatim>\<open>setTicks\<close> sets the tick step to
  \<open>\<lceil>N / numTicks\<rceil>\<close>. The boundary after \<open>k\<close> further calls of \<^verbatim>\<open>updateNextTick\<close> is
  \<open>min ((k + 1) * tickStep) N\<close>: each call adds the step and caps the sum at \<open>N\<close>, no
  boundary exceeds \<open>N\<close>, the sequence never decreases, and it increases strictly until it
  reaches \<open>N\<close>. The same bounds hold for the boundary along the consumer loop of \<^verbatim>\<open>Run\<close>.
\<close>

theorem C8_tick_boundaries:
  assumes "1 \<le> numJobs bq" and "1 \<le> ticks"
  shows "\<exists>bq'. setTicks ticks bq = Inr bq'
    \<and> numJobs bq' = numJobs bq
    \<and> tickStep bq' = \<lceil>real_of_int (numJobs bq) / real_of_int ticks\<rceil>
    \<and> (\<forall>k. nextTick ((updateNextTick ^^ k) bq') = min ((int k + 1) * tickStep bq') (numJobs bq)
          \<and> nextTick ((updateNextTick ^^ Suc k) bq')
              = min (nextTick ((updateNextTick ^^ k) bq') + tickStep bq') (numJobs bq)
          \<and> nextTick ((updateNextTick ^^ k) bq') \<le> numJobs bq
          \<and> nextTick ((updateNextTick ^^ k) bq') \<le> nextTick ((updateNextTick ^^ Suc k) bq')
          \<and> (nextTick ((updateNextTick ^^ k) bq') < numJobs bq \<longrightarrow>
               nextTick ((updateNextTick ^^ k) bq') < nextTick ((updateNextTick ^^ Suc k) bq')))
    \<and> (\<forall>bjs bj. nextTick (consume_all bjs bq') \<le> numJobs bq
          \<and> nextTick (consume_all bjs bq') \<le> nextTick (consume_all (bjs @ [bj]) bq'))"
proof -
  define step where "step = \<lceil>real_of_int (numJobs bq) / real_of_int ticks\<rceil>"
  define bq' where "bq' = bq\<lparr>numTicks := ticks, tickStep := step,
    nextTick := min step (numJobs bq)\<rparr>"
  have run: "setTicks ticks bq = Inr bq'"
    using assms(2) by (simp add: setTicks_nonzero bq'_def step_def)
  have "0 < real_of_int (numJobs bq) / real_of_int ticks" using assms by simp
  then have step: "1 \<le> step" unfolding step_def by linarith
  have f: "numJobs bq' = numJobs bq" "tickStep bq' = step" "nextTick bq' = min step (numJobs bq)"
    by (simp_all add: bq'_def)
  have closed: "nextTick ((updateNextTick ^^ k) bq') = min ((int k + 1) * step) (numJobs bq)" for k
    using funpow_updateNextTick_closed [of bq' k] step by (simp add: f)
  have next_eq: "nextTick ((updateNextTick ^^ Suc k) bq')
      = min (nextTick ((updateNextTick ^^ k) bq') + step) (numJobs bq)" for k
    by (simp add: updateNextTick_fields funpow_updateNextTick_fixed f)
  have ticks: "nextTick ((updateNextTick ^^ k) bq') = min ((int k + 1) * tickStep bq') (numJobs bq)
          \<and> nextTick ((updateNextTick ^^ Suc k) bq')
              = min (nextTick ((updateNextTick ^^ k) bq') + tickStep bq') (numJobs bq)
          \<and> nextTick ((updateNextTick ^^ k) bq') \<le> numJobs bq
          \<and> nextTick ((updateNextTick ^^ k) bq') \<le> nextTick ((updateNextTick ^^ Suc k) bq')
          \<and> (nextTick ((updateNextTick ^^ k) bq') < numJobs bq \<longrightarrow>
               nextTick ((updateNextTick ^^ k) bq') < nextTick ((updateNextTick ^^ Suc k) bq'))" for k
  proof -
    have le: "nextTick ((updateNextTick ^^ k) bq') \<le> numJobs bq" by (simp add: closed)
    have "b \<le> min (b + step) n \<and> (b < n \<longrightarrow> b < min (b + step) n)" if "b \<le> n" for b n :: int
      using that step by (simp add: min_def)
    from this [OF le] le show ?thesis unfolding next_eq f by (simp add: closed)
  qed
  have loop: "nextTick (consume_all bjs bq') \<le> numJobs bq
          \<and> nextTick (consume_all bjs bq') \<le> nextTick (consume_all (bjs @ [bj]) bq')" for bjs bj
    using consume_all_nextTick [of bq' bjs bj] step by (simp add: f)
  from run f(1,2) ticks loop show ?thesis unfolding step_def by blast
qed

text \<open>
  Fifty jobs and twenty ticks: the step is 3, the boundaries are 3, 6, \<dots>, 48, 50, 50.
\<close>

theorem C8_witness:
  "1 \<le> numJobs (zero_BgQueue\<lparr>numJobs := 50\<rparr>) \<and> (1::int) \<le> 20
   \<and> (\<exists>bq'. setTicks 20 (zero_BgQueue\<lparr>numJobs := 50\<rparr>) = Inr bq'
         \<and> tickStep bq' = 3
         \<and> nextTick bq' = 3
         \<and> nextTick (updateNextTick bq') = 6
         \<and> nextTick ((updateNextTick ^^ 16) bq') = 50
         \<and> nextTick ((updateNextTick ^^ 17) bq') = 50)"
proof -
  define bq where "bq = zero_BgQueue\<lparr>numJobs := 50\<rparr>"
  have n: "numJobs bq = 50" by (simp add: bq_def)
  have h1: "1 \<le> numJobs bq" and h2: "(1::int) \<le> 20" by (simp_all add: n)
  from C8_tick_boundaries [OF h1 h2] obtain bq' where
    run: "setTicks 20 bq = Inr bq'" and
    step: "tickStep bq' = \<lceil>real_of_int (numJobs bq) / real_of_int 20\<rceil>" and
    ticks: "\<And>k. nextTick ((updateNextTick ^^ k) bq') = min ((int k + 1) * tickStep bq') (numJobs bq)"
    by blast
  have s3: "tickStep bq' = 3" unfolding step n by simp
  have "nextTick bq' = 3" "nextTick (updateNextTick bq') = 6"
    "nextTick ((updateNextTick ^^ 16) bq') = 50" "nextTick ((updateNextTick ^^ 17) bq') = 50"
    using ticks [of 0] ticks [of 1] ticks [of 16] ticks [of 17] by (simp_all add: s3 n)
  with h1 h2 run s3 show ?thesis unfolding bq_def by blast
qed

text \<open>
  Claim C9. In the earlier revision, which starts its minimum at zero and replaces it
  when \<open>duration < min \<or> min = 0\<close>, there is a sequence of completed jobs with a job of
  duration zero after which \<^verbatim>\<open>MinimumRunTime\<close> is not the minimum of the durations:
  durations 0 and 5 give 5.
\<close>

theorem C9_zero_duration_lost:
  "\<exists>bjs. map Duration bjs = [0, 5]
     \<and> Min (set (map Duration bjs)) = 0
     \<and> MinimumRunTime_agg (updates_agg bjs (bgstats_New_agg 2)) = 5
     \<and> MinimumRunTime_agg (updates_agg bjs (bgstats_New_agg 2)) \<noteq> Min (set (map Duration bjs))"
proof (intro exI [of _ "[zero_BackgroundJob\<lparr>Duration := 0\<rparr>, zero_BackgroundJob\<lparr>Duration := 5\<rparr>]"] conjI)
  show "map Duration [zero_BackgroundJob\<lparr>Duration := 0\<rparr>, zero_BackgroundJob\<lparr>Duration := 5\<rparr>] = [0, 5]"
    by simp
  show min: "Min (set (map Duration [zero_BackgroundJob\<lparr>Duration := 0\<rparr>, zero_BackgroundJob\<lparr>Duration := 5\<rparr>])) = 0"
    by simp
  show agg: "MinimumRunTime_agg (updates_agg [zero_BackgroundJob\<lparr>Duration := 0\<rparr>,
      zero_BackgroundJob\<lparr>Duration := 5\<rparr>] (bgstats_New_agg 2)) = 5"
    by (simp add: MinimumRunTime_agg_def updates_agg_def Update_agg_def bgstats_New_agg_def
        bgstats_Init_def zero_BgQueueStats_agg_def zero_BackgroundJob_def)
  show "MinimumRunTime_agg (updates_agg [zero_BackgroundJob\<lparr>Duration := 0\<rparr>,
      zero_BackgroundJob\<lparr>Duration := 5\<rparr>] (bgstats_New_agg 2))
      \<noteq> Min (set (map Duration [zero_BackgroundJob\<lparr>Duration := 0\<rparr>, zero_BackgroundJob\<lparr>Duration := 5\<rparr>]))"
    unfolding min agg by simp
qed

text \<open>
  Claim C10. From a fresh accumulator of the current revision, after any sequence of
  \<^verbatim>\<open>Update\<close> calls the number of stored durations equals \<open>Completed\<close>; so when
  \<open>Completed \<ge> 1\<close> the list is not empty and each query over the samples returns a value:
  no index is out of range and no division is by a zero count. For \<^verbatim>\<open>RootMeanSquare\<close>,
  which cannot panic, and for the mean inside \<^verbatim>\<open>Variance\<close>, the division is one of
  floating-point numbers: its result is a number, and the square root is taken of a
  number that is not negative. This holds whatever the implementation does with the
  conversions that the language leaves open.
\<close>

theorem C10_samples_match_completed:
  assumes "bqs = updates bjs (bgstats_New totalJobs)"
  shows "int (length (durations bqs)) = Completed bqs
    \<and> (1 \<le> Completed bqs \<longrightarrow>
         durations bqs \<noteq> []
         \<and> (\<exists>v. AverageRunTime bqs = Inr v)
         \<and> (\<exists>v. MinimumRunTime bqs = Inr v)
         \<and> (\<exists>v. MaximumRunTime bqs = Inr v)
         \<and> (\<exists>v. Variance conv bqs = Inr v)
         \<and> (\<exists>v. StdDev conv bqs = Inr v)
         \<and> (\<exists>x. average_float64 (toSeconds (durations bqs)) = Fin x)
         \<and> (\<exists>x. 0 \<le> x
               \<and> average_float64 (squared_float64 (toSeconds (durations bqs))) = Fin x
               \<and> RootMeanSquare conv bqs = fromSecond conv (Fin (sqrt x))))"
proof -
  have len: "int (length (durations bqs)) = Completed bqs"
    by (simp add: assms updates_New_durations updates_New_Completed)
  have "durations bqs \<noteq> []
      \<and> (\<exists>v. AverageRunTime bqs = Inr v)
      \<and> (\<exists>v. MinimumRunTime bqs = Inr v)
      \<and> (\<exists>v. MaximumRunTime bqs = Inr v)
      \<and> (\<exists>v. Variance conv bqs = Inr v)
      \<and> (\<exists>v. StdDev conv bqs = Inr v)
      \<and> (\<exists>x. average_float64 (toSeconds (durations bqs)) = Fin x)
      \<and> (\<exists>x. 0 \<le> x
            \<and> average_float64 (squared_float64 (toSeconds (durations bqs))) = Fin x
            \<and> RootMeanSquare conv bqs = fromSecond conv (Fin (sqrt x)))" if "1 \<le> Completed bqs"
  proof -
    from that len have ne: "durations bqs \<noteq> []" by auto
    have "\<exists>v. AverageRunTime bqs = Inr v"
      unfolding AverageRunTime_def using ne by (rule average_Duration_nonempty)
    moreover have "\<exists>v. MinimumRunTime bqs = Inr v" "\<exists>v. MaximumRunTime bqs = Inr v"
      using ne by (simp_all add: MinimumRunTime_def MaximumRunTime_def min_Duration_Min
          max_Duration_Max)
    ultimately show ?thesis
      using ne Variance_nonempty [OF ne, of conv] StdDev_nonempty [OF ne, of conv]
        mean_of_seconds_nonempty [OF ne] RootMeanSquare_nonempty [OF ne, of conv]
      by (intro conjI)
  qed
  with len show ?thesis by blast
qed

text \<open>
  Two jobs, of 3 and 8 nanoseconds, and an implementation whose open conversions give
  the smallest \<^verbatim>\<open>int64\<close>.
\<close>

theorem C10_witness:
  "let bqs = updates [zero_BackgroundJob\<lparr>Duration := 3\<rparr>, zero_BackgroundJob\<lparr>Duration := 8\<rparr>]
               (bgstats_New 2);
       conv = (\<lambda>f. - 9223372036854775808)
   in int (length (durations bqs)) = Completed bqs \<and> 1 \<le> Completed bqs
      \<and> durations bqs \<noteq> []
      \<and> (\<exists>v. AverageRunTime bqs = Inr v)
      \<and> (\<exists>v. MinimumRunTime bqs = Inr v)
      \<and> (\<exists>v. MaximumRunTime bqs = Inr v)
      \<and> (\<exists>v. Variance conv bqs = Inr v)
      \<and> (\<exists>v. StdDev conv bqs = Inr v)
      \<and> (\<exists>x. average_float64 (toSeconds (durations bqs)) = Fin x)
      \<and> (\<exists>x. 0 \<le> x
            \<and> average_float64 (squared_float64 (toSeconds (durations bqs))) = Fin x
            \<and> RootMeanSquare conv bqs = fromSecond conv (Fin (sqrt x)))"
proof -
  define bqs where "bqs = updates [zero_BackgroundJob\<lparr>Duration := 3\<rparr>,
    zero_BackgroundJob\<lparr>Duration := 8\<rparr>] (bgstats_New 2)"
  have c: "1 \<le> Completed bqs"
    by (simp add: bqs_def updates_def Update_def bgstats_New_def bgstats_Init_def
        zero_BgQueueStats_def zero_BackgroundJob_def)
  from C10_samples_match_completed [OF bqs_def, of "\<lambda>f. - 9223372036854775808"] c
  show ?thesis unfolding Let_def bqs_def [symmetric] by blast
qed

end
